theory Spec2Isabelle
  imports
    Main
    "HOL-Library.Char_ord"
    "HOL-Library.List_Lexorder"
    "HOL-Library.Multiset"
    "HOL-Library.Word"
begin

section \<open>Message expiry on a swarm: \<open>ts/session/apis/snode_api/expire.ts\<close>\<close>

text \<open>
  A shallow embedding of the four private functions of \<open>expire.ts\<close>
  (\<open>generateSignature\<close>, \<open>verifySignature\<close>, \<open>processExpirationResults\<close>,
  \<open>expireOnNodes\<close>) and of its export \<open>expireMessageOnSnode\<close>.

  Strings are byte strings (\<open>char list\<close>): message hashes, keys and signatures are hex or
  base64 text. A timestamp is a JavaScript number holding an integer, modelled as \<open>int\<close>.
  Everything the file imports from elsewhere (the logger, libsodium, the codecs, the RPC
  client, the swarm lookup, the clock, \<open>JSON.parse\<close>, \<open>firstTrue\<close>,
  \<open>DEFAULT_CONNECTIONS\<close>) is a field of the record \<open>env\<close>: the theorems hold for
  every value of these fields unless a hypothesis restricts them.
\<close>

subsection \<open>JavaScript strings, numbers and values\<close>

text \<open>\<open>Array.prototype.join\<close> on an array of strings.\<close>

fun join :: "string \<Rightarrow> string list \<Rightarrow> string" where
  "join sep [] = []"
| "join sep [x] = x"
| "join sep (x # y # ys) = x @ sep @ join sep (y # ys)"

text \<open>
  Number-to-string conversion of a template literal, for an integer below \<open>10^21\<close> in
  absolute value: the decimal digits, most significant first, after a minus sign for a
  negative number.
\<close>

definition digit_char :: "nat \<Rightarrow> char" where
  "digit_char d = char_of (of_char (CHR ''0'') + d)"

fun nat_toString :: "nat \<Rightarrow> string" where
  "nat_toString n =
     (if n < 10 then [digit_char n] else nat_toString (n div 10) @ [digit_char (n mod 10)])"

definition number_toString :: "int \<Rightarrow> string" where
  "number_toString i =
     (if i < 0 then CHR ''-'' # nat_toString (nat (- i)) else nat_toString (nat i))"

text \<open>
  Reading a decimal numeral back: the value of a digit string, and of a digit string with
  an optional leading minus sign. Used only to state what \<open>number_toString\<close> renders.
\<close>

definition is_digit :: "char \<Rightarrow> bool" where
  "is_digit c = (CHR ''0'' \<le> c \<and> c \<le> CHR ''9'')"




text \<open>\<open>String.prototype.toUpperCase\<close> on ASCII text.\<close>

definition toUpperCase :: "string \<Rightarrow> string" where
  "toUpperCase s =
     map (\<lambda>c. if CHR ''a'' \<le> c \<and> c \<le> CHR ''z'' then char_of (of_char c - (32::nat)) else c) s"

text \<open>
  A JSON value, for the one response field the code reads without assuming a type
  (\<open>failed\<close>), and lodash's \<open>isEmpty\<close> on it: true for \<open>undefined\<close>, \<open>null\<close>, booleans
  and numbers, and for a string, array or object without elements.
\<close>

datatype jsval =
    JUndefined
  | JNull
  | JBool bool
  | JNum int
  | JStr string
  | JArr "jsval list"
  | JObj "(string \<times> jsval) list"

fun isEmpty :: "jsval \<Rightarrow> bool" where
  "isEmpty JUndefined = True"
| "isEmpty JNull = True"
| "isEmpty (JBool b) = True"
| "isEmpty (JNum n) = True"
| "isEmpty (JStr s) = (s = [])"
| "isEmpty (JArr xs) = (xs = [])"
| "isEmpty (JObj kvs) = (kvs = [])"

subsection \<open>The canonical strings\<close>

text \<open>
  The token chosen in \<open>expireMessageOnSnode\<close>:
  \<^verbatim>\<open>shorten ? 'shorten' : extend ? 'extend' : ''\<close>.
\<close>

definition shortenOrExtend :: "bool \<Rightarrow> bool \<Rightarrow> string" where
  "shortenOrExtend shorten extend =
     (if shorten then ''shorten'' else if extend then ''extend'' else '''')"

text \<open>
  The string signed by \<open>generateSignature\<close>:
  \<^verbatim>\<open>`expire${shortenOrExtend}${timestamp}${messageHashes.join('')}`\<close>.
\<close>

definition generateSignature_verificationString :: "string \<Rightarrow> int \<Rightarrow> string list \<Rightarrow> string" where
  "generateSignature_verificationString tok timestamp messageHashes =
     ''expire'' @ tok @ number_toString timestamp @ join '''' messageHashes"

subsection \<open>Outcomes and traces\<close>

text \<open>
  A call either returns a value, throws (a rejected promise), or never settles (a promise
  that stays pending). Every function of the model returns its outcome together with the
  trace of the external calls it made, in the order it made them.
\<close>

datatype error =
    TypeError string
  | Error string
  | EmptySwarmError string string
  | External string

datatype 'a outcome = Returned 'a | Threw error | Pending

record PubKey =
  key :: string

record HexKeyPair =
  pubKey :: string
  privKey :: string

record Snode =
  snode_pubkey_ed25519 :: string
  ip :: string
  port :: nat

type_synonym bytes = "8 word list"

text \<open>
  The object passed to \<open>snodeRpc\<close> as \<open>params\<close>: the fields of \<open>params\<close> built in
  \<open>expireMessageOnSnode\<close>, with \<open>pubkey\<close> replaced by its string in \<open>expireOnNodes\<close>.
\<close>

record rpc_params =
  rpc_pubkey :: string
  rpc_pubkey_ed25519 :: string
  rpc_messages :: "string list"
  rpc_expiry :: int
  rpc_extend :: "bool option"
  rpc_shorten :: "bool option"
  rpc_signature :: string

datatype event =
    Log string string
  | SwarmLookup string
  | ClockRead
  | SignCall bytes bytes
  | VerifyCall bytes bytes bytes
  | RpcCall Snode rpc_params

type_synonym 'a io = "'a outcome \<times> event list"

definition ret :: "'a \<Rightarrow> 'a io" where
  "ret x = (Returned x, [])"

definition throw :: "error \<Rightarrow> 'a io" where
  "throw e = (Threw e, [])"

definition call :: "event list \<Rightarrow> 'a outcome \<Rightarrow> 'a io" where
  "call evs r = (r, evs)"

text \<open>Sequencing: the continuation runs only when the first part returned.\<close>

definition andThen :: "'a io \<Rightarrow> ('a \<Rightarrow> 'b io) \<Rightarrow> 'b io" where
  "andThen m f =
     (case fst m of
        Returned x \<Rightarrow> (fst (f x), snd m @ snd (f x))
      | Threw e \<Rightarrow> (Threw e, snd m)
      | Pending \<Rightarrow> (Pending, snd m))"

text \<open>\<^verbatim>\<open>try { m } catch (e) { h(e) }\<close>\<close>

definition tryCatch :: "'a io \<Rightarrow> (error \<Rightarrow> 'a io) \<Rightarrow> 'a io" where
  "tryCatch m h =
     (case fst m of
        Threw e \<Rightarrow> (fst (h e), snd m @ snd (h e))
      | _ \<Rightarrow> m)"

subsection \<open>The response of a storage node\<close>

text \<open>
  One entry of the \<open>swarm\<close> object of a response, with the fields the code reads. A field
  that is absent (\<open>undefined\<close>) is \<open>None\<close>. The object itself is a list of
  (node key, entry) pairs in the order of \<open>Object.keys\<close>; so is \<open>unchanged\<close>.
\<close>

record swarm_entry =
  entry_failed :: jsval
  entry_updated :: "string list option"
  entry_unchanged :: "(string \<times> string) list option"
  entry_expiry :: "int option"
  entry_signature :: "string option"

record parsed =
  parsed_swarm :: "(string \<times> swarm_entry) list option"

record rpc_result =
  status :: int
  body :: string

text \<open>The value stored in \<open>results[nodeKey]\<close>.\<close>

record result_entry =
  result_hashes :: "string list option"
  result_expiry :: "int option"

text \<open>
  \<open>results[nodeKey] = v\<close> on an object kept as a list of pairs: an existing key keeps its
  place, a new one goes last.
\<close>

fun assign :: "(string \<times> 'v) list \<Rightarrow> string \<Rightarrow> 'v \<Rightarrow> (string \<times> 'v) list" where
  "assign [] k v = [(k, v)]"
| "assign ((k', v') # kvs) k v = (if k' = k then (k, v) # kvs else (k', v') # assign kvs k v)"

subsection \<open>What the file imports\<close>

text \<open>
  None of these is defined in \<open>expire.ts\<close>. A call that can throw, or whose promise can
  reject or stay pending, has an \<open>outcome\<close>. \<open>log_methods\<close> lists the methods of
  \<open>window.log\<close>; \<open>getNowWithNetworkOffset\<close> is the value the clock gives when read;
  \<open>snodeRpc\<close> takes the target node and the \<open>params\<close> object (the method is always
  \<open>expire\<close>) and returns \<open>None\<close> for a falsy result; \<open>JSON_parse\<close> returns the
  parsed body; \<open>firstTrue\<close> receives the outcomes of the promises it is given.
\<close>

record env =
  log_methods :: "string list"
  getOurPubKeyFromCache :: "PubKey option outcome"
  getUserED25519KeyPair :: "HexKeyPair option outcome"
  getSwarmFor :: "string \<Rightarrow> Snode list outcome"
  getNowWithNetworkOffset :: int
  DEFAULT_CONNECTIONS :: nat
  fromHexToArray :: "string \<Rightarrow> bytes outcome"
  fromBase64ToArray :: "string \<Rightarrow> bytes outcome"
  fromUInt8ArrayToBase64 :: "bytes \<Rightarrow> string"
  encode_utf8 :: "string \<Rightarrow> bytes"
  getSodiumRenderer :: "unit outcome"
  crypto_sign_detached :: "bytes \<Rightarrow> bytes \<Rightarrow> bytes outcome"
  crypto_sign_verify_detached :: "bytes \<Rightarrow> bytes \<Rightarrow> bytes \<Rightarrow> bool outcome"
  snodeRpc :: "Snode \<Rightarrow> rpc_params \<Rightarrow> rpc_result option outcome"
  JSON_parse :: "string \<Rightarrow> parsed outcome"
  firstTrue :: "Snode option outcome list \<Rightarrow> Snode outcome"

text \<open>
  A call \<open>window.log.m(...)\<close>: it throws a \<open>TypeError\<close> when the logger has no method
  \<open>m\<close>, and logs otherwise. The second argument is the fixed leading text of the message.
\<close>

definition log_call :: "env \<Rightarrow> string \<Rightarrow> string \<Rightarrow> unit io" where
  "log_call env m msg =
     (if m \<in> set (log_methods env) then call [Log m msg] (Returned ())
      else throw (TypeError (''window.log.'' @ m @ '' is not a function'')))"

subsection \<open>\<open>generateSignature\<close>\<close>

definition generateSignature ::
  "env \<Rightarrow> HexKeyPair option \<Rightarrow> string \<Rightarrow> int \<Rightarrow> string list \<Rightarrow> (string \<times> string) option io" where
  "generateSignature env pubkey_ed25519 tok timestamp messageHashes =
     (case pubkey_ed25519 of
        None \<Rightarrow> ret None
      | Some kp \<Rightarrow>
          andThen (call [] (fromHexToArray env (privKey kp))) (\<lambda>edKeyPrivBytes.
          let verificationString = generateSignature_verificationString tok timestamp messageHashes;
              verificationData = encode_utf8 env verificationString
          in
          andThen (log_call env ''debug'' ''generateSignature verificationString'') (\<lambda>_.
          let message = verificationData in
          andThen (call [] (getSodiumRenderer env)) (\<lambda>_.
          tryCatch
            (andThen (call [SignCall message edKeyPrivBytes]
                        (crypto_sign_detached env message edKeyPrivBytes)) (\<lambda>sig.
             let signatureBase64 = fromUInt8ArrayToBase64 env sig in
             ret (Some (signatureBase64, pubKey kp))))
            (\<lambda>e. andThen (log_call env ''warn'' ''generateSignature failed with: '') (\<lambda>_.
                  ret None))))))"

subsection \<open>\<open>verifySignature\<close>\<close>

text \<open>
  The array \<open>hashes\<close>: \<^verbatim>\<open>[...messageHashes, ...updatedHashes]\<close>, then the sorted
  \<open>hash || expiry\<close> strings of a non-empty \<open>unchangedHashes\<close> are pushed. JavaScript's
  default \<open>sort()\<close> orders strings by code unit, here the lexicographic order on
  \<open>char list\<close>; \<open>Object.keys\<close> and \<open>Object.entries\<close> list the pairs of the object.
\<close>

definition verifySignature_hashes ::
  "string list \<Rightarrow> string list \<Rightarrow> (string \<times> string) list option \<Rightarrow> string list" where
  "verifySignature_hashes messageHashes updatedHashes unchangedHashes =
     (let hashes = messageHashes @ updatedHashes in
      if unchangedHashes \<noteq> None \<and> length (map fst (the unchangedHashes)) > 0
      then hashes @ sort (map (\<lambda>(k, v). k @ v) (the unchangedHashes))
      else hashes)"

text \<open>\<^verbatim>\<open>`${pubkey.key}${expiryApplied}${hashes.join('')}`\<close>\<close>

definition verifySignature_verificationString :: "PubKey \<Rightarrow> int \<Rightarrow> string list \<Rightarrow> string" where
  "verifySignature_verificationString pubkey expiryApplied hs =
     key pubkey @ number_toString expiryApplied @ join '''' hs"

text \<open>
  The first test is \<^verbatim>\<open>!expiryApplied || isEmpty(messageHashes) || isEmpty(signature)\<close>.
  Decoding the node key and spreading an \<open>undefined\<close> \<open>updatedHashes\<close> (a
  \<open>TypeError\<close>) happen outside the \<open>try\<close> block; decoding the signature and the
  primitive are inside it.
\<close>

definition verifySignature ::
  "env \<Rightarrow> PubKey \<Rightarrow> string \<Rightarrow> int option \<Rightarrow> string option \<Rightarrow> string list \<Rightarrow>
   string list option \<Rightarrow> (string \<times> string) list option \<Rightarrow> bool io" where
  "verifySignature env pubkey snodePubkey expiryApplied sig messageHashes updatedHashes
     unchangedHashes =
     (if expiryApplied = None \<or> expiryApplied = Some 0 \<or> messageHashes = []
         \<or> sig = None \<or> sig = Some []
      then andThen (log_call env ''warn'' ''verifySignature missing argument'') (\<lambda>_. ret False)
      else
        andThen (call [] (fromHexToArray env snodePubkey)) (\<lambda>edKeyPrivBytes.
        andThen (if updatedHashes = None
                 then throw (TypeError ''updatedHashes is not iterable'')
                 else ret (verifySignature_hashes messageHashes (the updatedHashes)
                             unchangedHashes)) (\<lambda>hs.
        let verificationString = verifySignature_verificationString pubkey (the expiryApplied) hs;
            verificationData = encode_utf8 env verificationString
        in
        andThen (log_call env ''debug'' ''verifySignature verificationString'') (\<lambda>_.
        andThen (call [] (getSodiumRenderer env)) (\<lambda>_.
        tryCatch
          (andThen (call [] (fromBase64ToArray env (the sig))) (\<lambda>sigBytes.
           andThen (call [VerifyCall sigBytes verificationData edKeyPrivBytes]
                      (crypto_sign_verify_detached env sigBytes verificationData edKeyPrivBytes))
             (\<lambda>isValid. ret isValid)))
          (\<lambda>e. andThen (log_call env ''warn'' ''verifySignature failed with: '') (\<lambda>_.
                ret False)))))))"

subsection \<open>\<open>processExpirationResults\<close>\<close>

type_synonym results = "(string \<times> result_entry) list"

text \<open>One iteration of the loop over \<open>Object.keys(swarm)\<close>, for the key \<open>nodeKey\<close>.\<close>

definition processExpirationResults_body ::
  "env \<Rightarrow> PubKey \<Rightarrow> Snode \<Rightarrow> string list \<Rightarrow> string \<Rightarrow> swarm_entry \<Rightarrow> results \<Rightarrow> results io" where
  "processExpirationResults_body env pubkey targetNode messageHashes nodeKey entry results =
     andThen
       (if \<not> isEmpty (entry_failed entry)
        then andThen (log_call env ''warn'' ''loki_message:::expireMessage - Couldn't delete data from: '')
               (\<lambda>_. ret (assign results nodeKey \<lparr>result_hashes = Some [], result_expiry = Some 0\<rparr>))
        else ret results) (\<lambda>results.
     let updatedHashes = entry_updated entry;
         unchangedHashes = entry_unchanged entry;
         expiryApplied = entry_expiry entry;
         sig = entry_signature entry
     in
     andThen (verifySignature env pubkey nodeKey expiryApplied sig messageHashes updatedHashes
                unchangedHashes) (\<lambda>isValid.
     andThen
       (if \<not> isValid
        then log_call env ''warn'' ''loki_message:::expireMessage - Signature verification failed!''
        else ret ()) (\<lambda>_.
     ret (assign results nodeKey
            \<lparr>result_hashes = updatedHashes, result_expiry = expiryApplied\<rparr>))))"

fun processExpirationResults_loop ::
  "env \<Rightarrow> PubKey \<Rightarrow> Snode \<Rightarrow> string list \<Rightarrow> (string \<times> swarm_entry) list \<Rightarrow> results \<Rightarrow> results io" where
  "processExpirationResults_loop env pubkey targetNode messageHashes [] results = ret results"
| "processExpirationResults_loop env pubkey targetNode messageHashes ((nodeKey, entry) # rest) results =
     andThen (processExpirationResults_body env pubkey targetNode messageHashes nodeKey entry results)
       (\<lambda>results'. processExpirationResults_loop env pubkey targetNode messageHashes rest results')"

definition processExpirationResults ::
  "env \<Rightarrow> PubKey \<Rightarrow> Snode \<Rightarrow> (string \<times> swarm_entry) list option \<Rightarrow> string list \<Rightarrow> results io" where
  "processExpirationResults env pubkey targetNode swarm messageHashes =
     (if swarm = None \<or> swarm = Some []
      then throw (Error (''expireOnNodes failed! '' @ join '','' messageHashes))
      else processExpirationResults_loop env pubkey targetNode messageHashes (the swarm) [])"

subsection \<open>\<open>expireOnNodes\<close>\<close>

text \<open>The object \<open>params\<close> built in \<open>expireMessageOnSnode\<close>.\<close>

record ExpireParams =
  params_pubkey :: PubKey
  params_pubkey_ed25519 :: string
  params_messages :: "string list"
  params_expiry :: int
  params_extend :: "bool option"
  params_shorten :: "bool option"
  params_signature :: string

text \<open>\<^verbatim>\<open>{ ...params, pubkey: params.pubkey.key }\<close>\<close>

definition rpcParams_of :: "ExpireParams \<Rightarrow> rpc_params" where
  "rpcParams_of params =
     \<lparr>rpc_pubkey = key (params_pubkey params),
      rpc_pubkey_ed25519 = params_pubkey_ed25519 params,
      rpc_messages = params_messages params,
      rpc_expiry = params_expiry params,
      rpc_extend = params_extend params,
      rpc_shorten = params_shorten params,
      rpc_signature = params_signature params\<rparr>"

text \<open>
  The inner \<open>try\<close> block returns \<open>true\<close>; its \<open>catch\<close> logs and falls through to
  \<open>return false\<close>. \<open>!result.body\<close> holds for an absent body and for the empty string, both
  the empty \<open>body\<close> here.
\<close>

definition expireOnNodes :: "env \<Rightarrow> Snode \<Rightarrow> ExpireParams \<Rightarrow> bool io" where
  "expireOnNodes env targetNode params =
     (let rpcParams = rpcParams_of params in
      tryCatch
        (andThen (call [RpcCall targetNode rpcParams] (snodeRpc env targetNode rpcParams))
           (\<lambda>result.
              if result = None \<or> status (the result) \<noteq> 200 \<or> body (the result) = []
              then ret False
              else
                andThen
                  (tryCatch
                     (andThen (call [] (JSON_parse env (body (the result)))) (\<lambda>parsed.
                      andThen (processExpirationResults env (params_pubkey params) targetNode
                                 (parsed_swarm parsed) (params_messages params))
                        (\<lambda>expirationResults.
                      andThen (log_call env ''debug''
                                 ''expireOnNodes attempt complete. Here are the results'') (\<lambda>_.
                      ret True))))
                     (\<lambda>e. andThen (log_call env ''warn''
                                     ''expireOnNodes Failed to parse \"swarm\" result: '') (\<lambda>_.
                           ret False)))
                  (\<lambda>done. ret done)))
        (\<lambda>e. andThen (log_call env ''warn'' ''expire - send error:'') (\<lambda>_. throw e)))"

subsection \<open>\<open>expireMessageOnSnode\<close>\<close>

text \<open>The fields \<open>extend\<close> and \<open>shorten\<close> are optional booleans.\<close>

record ExpireMessageOnSnodeProps =
  messageHash :: string
  expireTimer :: int
  props_extend :: "bool option"
  props_shorten :: "bool option"

text \<open>The object \<open>params\<close>, from the keys, the props, the expiry and the signature.\<close>

definition expireMessageOnSnode_params ::
  "PubKey \<Rightarrow> HexKeyPair \<Rightarrow> ExpireMessageOnSnodeProps \<Rightarrow> int \<Rightarrow> string \<Rightarrow> ExpireParams" where
  "expireMessageOnSnode_params ourPubKey ourEd25519Key props expiry sig =
     \<lparr>params_pubkey = ourPubKey,
      params_pubkey_ed25519 = toUpperCase (pubKey ourEd25519Key),
      params_messages = [messageHash props],
      params_expiry = expiry,
      params_extend = (if props_extend props = Some True then Some True else None),
      params_shorten = (if props_shorten props = Some True then Some True else None),
      params_signature = sig\<rparr>"

text \<open>
  \<open>promises\<close>: one attempt per node of \<open>usedNodes\<close>. The attempts start in the order of
  \<open>usedNodes\<close> and run concurrently; the trace lists them one after the other.
\<close>

definition expireMessageOnSnode_promises ::
  "env \<Rightarrow> ExpireParams \<Rightarrow> Snode list \<Rightarrow> Snode option io list" where
  "expireMessageOnSnode_promises env params usedNodes =
     map (\<lambda>usedNode.
            andThen (expireOnNodes env usedNode params) (\<lambda>successfulSend.
            ret (if successfulSend then Some usedNode else None)))
       usedNodes"

text \<open>
  The final \<open>try\<close> block: \<open>firstTrue\<close> receives the outcomes of the attempts; its value
  is dropped, its error is logged and thrown again.
\<close>

definition expireMessageOnSnode_race :: "env \<Rightarrow> Snode option io list \<Rightarrow> unit io" where
  "expireMessageOnSnode_race env promises =
     tryCatch
       (andThen (call (concat (map snd promises)) (firstTrue env (map fst promises)))
          (\<lambda>firstSuccessSnode. ret ()))
       (\<lambda>e. andThen (log_call env ''warn'' ''loki_message:::expireMessage - '') (\<lambda>_.
             throw e))"

text \<open>
  The function has no \<open>return\<close> with a value: it returns \<open>undefined\<close>, throws, or stays
  pending.
\<close>

definition expireMessageOnSnode :: "env \<Rightarrow> ExpireMessageOnSnodeProps \<Rightarrow> unit io" where
  "expireMessageOnSnode env props =
     (if props_extend props = Some True \<and> props_shorten props = Some True
      then andThen (log_call env ''error''
                      ''[expireMessageOnSnode] We cannot extend and shorten a message at the same time'')
             (\<lambda>_. ret ())
      else
        let tok = shortenOrExtend (props_shorten props = Some True) (props_extend props = Some True) in
        andThen (call [] (getOurPubKeyFromCache env)) (\<lambda>ourPubKey.
        andThen (call [] (getUserED25519KeyPair env)) (\<lambda>ourEd25519Key.
        if ourPubKey = None \<or> ourEd25519Key = None
        then andThen (log_call env ''eror'' ''[expireMessageOnSnode] No pubkey found'')
               (\<lambda>_. ret ())
        else
          andThen (call [SwarmLookup (key (the ourPubKey))] (getSwarmFor env (key (the ourPubKey))))
            (\<lambda>swarm.
          andThen (call [ClockRead] (Returned (getNowWithNetworkOffset env + expireTimer props)))
            (\<lambda>expiry.
          andThen (generateSignature env ourEd25519Key tok expiry [messageHash props])
            (\<lambda>signResult.
          if signResult = None
          then andThen (log_call env ''error''
                          ''[expireMessageOnSnode] Signing message expiry on swarm failed'')
                 (\<lambda>_. ret ())
          else
            let params = expireMessageOnSnode_params (the ourPubKey) (the ourEd25519Key) props
                           expiry (fst (the signResult));
                usedNodes = take (DEFAULT_CONNECTIONS env) swarm
            in
            if usedNodes = []
            then throw (EmptySwarmError (key (the ourPubKey)) ''Ran out of swarm nodes to query'')
            else
              let promises = expireMessageOnSnode_promises env params usedNodes in
              expireMessageOnSnode_race env promises))))))"

subsection \<open>Reading a trace\<close>

text \<open>The messages handed to the signing primitive, in order.\<close>

definition signed_messages :: "event list \<Rightarrow> bytes list" where
  "signed_messages tr = concat (map (\<lambda>ev. case ev of SignCall m k \<Rightarrow> [m] | _ \<Rightarrow> []) tr)"

text \<open>The \<open>hash || expiry\<close> strings of an \<open>unchanged\<close> object.\<close>

definition pair_strings :: "(string \<times> string) list \<Rightarrow> string list" where
  "pair_strings entries = map (\<lambda>(k, v). k @ v) entries"

text \<open>The calls to \<open>snodeRpc\<close>, in order, and the number of clock reads.\<close>

definition rpc_calls :: "event list \<Rightarrow> (Snode \<times> rpc_params) list" where
  "rpc_calls tr = concat (map (\<lambda>ev. case ev of RpcCall n p \<Rightarrow> [(n, p)] | _ \<Rightarrow> []) tr)"

definition clock_reads :: "event list \<Rightarrow> nat" where
  "clock_reads tr = length (filter (\<lambda>ev. ev = ClockRead) tr)"

text \<open>The calls to the signing primitive with their results, in order.\<close>

definition sign_results :: "env \<Rightarrow> event list \<Rightarrow> bytes outcome list" where
  "sign_results env tr =
     concat (map (\<lambda>ev. case ev of SignCall m k \<Rightarrow> [crypto_sign_detached env m k] | _ \<Rightarrow> []) tr)"


text \<open>A trace without a transport call, a clock read or a signing call.\<close>

definition quiet :: "event list \<Rightarrow> bool" where
  "quiet tr = (rpc_calls tr = [] \<and> clock_reads tr = 0 \<and> signed_messages tr = [])"


subsection \<open>An environment for concrete runs\<close>

text \<open>
  A logger with the usual methods, toy codecs and a toy signature scheme (the signature of
  a message is the key followed by the message), a swarm of three nodes of which two are
  contacted, and a node that answers every request with one entry. \<open>firstTrue_demo\<close>
  settles like the first promise, in list order, that is truthy or rejected.
\<close>

fun firstTrue_demo :: "Snode option outcome list \<Rightarrow> Snode outcome" where
  "firstTrue_demo [] = Pending"
| "firstTrue_demo (Returned (Some n) # ps) = Returned n"
| "firstTrue_demo (Threw e # ps) = Threw e"
| "firstTrue_demo (p # ps) = firstTrue_demo ps"

definition demo_nodes :: "Snode list" where
  "demo_nodes =
     [\<lparr>snode_pubkey_ed25519 = ''aa01'', ip = ''10.0.0.1'', port = 22021\<rparr>,
      \<lparr>snode_pubkey_ed25519 = ''bb02'', ip = ''10.0.0.2'', port = 22021\<rparr>,
      \<lparr>snode_pubkey_ed25519 = ''cc03'', ip = ''10.0.0.3'', port = 22021\<rparr>]"

definition demo_entry :: swarm_entry where
  "demo_entry =
     \<lparr>entry_failed = JUndefined, entry_updated = Some [''h1''], entry_unchanged = None,
      entry_expiry = Some 1060, entry_signature = Some ''c2ln''\<rparr>"

definition demo_env :: env where
  "demo_env =
     \<lparr>log_methods = [''fatal'', ''error'', ''warn'', ''info'', ''debug'', ''trace''],
      getOurPubKeyFromCache = Returned (Some \<lparr>key = ''05ab''\<rparr>),
      getUserED25519KeyPair = Returned (Some \<lparr>pubKey = ''ab12'', privKey = ''cd34''\<rparr>),
      getSwarmFor = (\<lambda>k. Returned demo_nodes),
      getNowWithNetworkOffset = 1000,
      DEFAULT_CONNECTIONS = 2,
      fromHexToArray = (\<lambda>s. Returned (map of_char s)),
      fromBase64ToArray = (\<lambda>s. Returned (map of_char s)),
      fromUInt8ArrayToBase64 = (\<lambda>b. map (\<lambda>w. char_of (unat w)) b),
      encode_utf8 = (\<lambda>s. map of_char s),
      getSodiumRenderer = Returned (),
      crypto_sign_detached = (\<lambda>m k. Returned (k @ m)),
      crypto_sign_verify_detached = (\<lambda>s m k. Returned (s = k @ m)),
      snodeRpc = (\<lambda>n p. Returned (Some \<lparr>status = 200, body = ''{swarm}''\<rparr>)),
      JSON_parse = (\<lambda>b. Returned \<lparr>parsed_swarm = Some [(''aa01'', demo_entry), (''bb02'', demo_entry)]\<rparr>),
      firstTrue = firstTrue_demo\<rparr>"

definition demo_props :: ExpireMessageOnSnodeProps where
  "demo_props =
     \<lparr>messageHash = ''h1'', expireTimer = 60, props_extend = None, props_shorten = Some True\<rparr>"

definition demo_params :: ExpireParams where
  "demo_params =
     \<lparr>params_pubkey = \<lparr>key = ''05ab''\<rparr>, params_pubkey_ed25519 = ''AB12'',
      params_messages = [''h1''], params_expiry = 1060, params_extend = None,
      params_shorten = Some True, params_signature = ''c2ln''\<rparr>"

section \<open>Properties\<close>

subsection \<open>Decimal rendering\<close>

lemma of_char_digit_char: "d < 10 \<Longrightarrow> (of_char (digit_char d) :: nat) = 48 + d"
  by (simp add: digit_char_def)


lemma is_digit_digit_char: "d < 10 \<Longrightarrow> is_digit (digit_char d)"
  by (simp add: is_digit_def digit_char_def less_eq_char_def)

lemma digit_char_not_minus: "d < 10 \<Longrightarrow> digit_char d \<noteq> CHR ''-''"
  using is_digit_digit_char[of d] by (auto simp: is_digit_def less_eq_char_def)







subsection \<open>The canonical strings\<close>

lemma join_empty_separator: "join [] xs = concat xs"
  by (induction "[] :: string" xs rule: join.induct) simp_all

lemma signed_messages_simps:
  "signed_messages [] = []"
  "signed_messages (xs @ ys) = signed_messages xs @ signed_messages ys"
  "signed_messages (Log a b # xs) = signed_messages xs"
  "signed_messages (SignCall m k # xs) = m # signed_messages xs"
  by (simp_all add: signed_messages_def)

lemma generateSignature_signed:
  "signed_messages (snd (generateSignature env keypair tok timestamp messageHashes)) = []
   \<or> signed_messages (snd (generateSignature env keypair tok timestamp messageHashes))
       = [encode_utf8 env (generateSignature_verificationString tok timestamp messageHashes)]"
  by (auto simp: generateSignature_def andThen_def tryCatch_def call_def ret_def throw_def log_call_def
        signed_messages_simps Let_def
      split: option.splits outcome.splits)


lemma sort_mset_cong: "mset xs = mset ys \<Longrightarrow> sort xs = sort (ys :: 'a::linorder list)"
  by (metis mset_sort properties_for_sort sorted_sort)

text \<open>
  C2. Two \<open>unchanged\<close> objects with the same entries in different orders give the same
  verification string; the \<open>hash || expiry\<close> strings are appended in sorted order; an
  empty or absent \<open>unchanged\<close> object adds nothing to the string.
\<close>

theorem C2_unchanged_sorted:
  "(mset u1 = mset u2 \<longrightarrow>
      verifySignature_verificationString pk e (verifySignature_hashes ms us (Some u1))
    = verifySignature_verificationString pk e (verifySignature_hashes ms us (Some u2)))
   \<and> (\<exists>ps. sorted ps \<and> mset ps = mset (pair_strings u)
        \<and> verifySignature_verificationString pk e (verifySignature_hashes ms us (Some u))
           = key pk @ number_toString e @ concat ms @ concat us @ concat ps)
   \<and> verifySignature_verificationString pk e (verifySignature_hashes ms us (Some []))
       = key pk @ number_toString e @ concat ms @ concat us
   \<and> verifySignature_verificationString pk e (verifySignature_hashes ms us None)
       = key pk @ number_toString e @ concat ms @ concat us"
proof -
  have hs: "verifySignature_hashes ms us (Some v) = ms @ us @ sort (pair_strings v)" for v
    by (cases v) (simp_all add: verifySignature_hashes_def pair_strings_def)
  have a: "mset u1 = mset u2 \<longrightarrow>
      verifySignature_verificationString pk e (verifySignature_hashes ms us (Some u1))
    = verifySignature_verificationString pk e (verifySignature_hashes ms us (Some u2))"
  proof
    assume "mset u1 = mset u2"
    then have "mset (pair_strings u1) = mset (pair_strings u2)"
      unfolding pair_strings_def by (metis mset_map)
    then have "sort (pair_strings u1) = sort (pair_strings u2)" by (rule sort_mset_cong)
    then show "verifySignature_verificationString pk e (verifySignature_hashes ms us (Some u1))
    = verifySignature_verificationString pk e (verifySignature_hashes ms us (Some u2))"
      by (simp add: hs)
  qed
  have b: "\<exists>ps. sorted ps \<and> mset ps = mset (pair_strings u)
        \<and> verifySignature_verificationString pk e (verifySignature_hashes ms us (Some u))
           = key pk @ number_toString e @ concat ms @ concat us @ concat ps"
    by (rule exI[of _ "sort (pair_strings u)"])
       (simp add: hs verifySignature_verificationString_def join_empty_separator)
  have c: "verifySignature_verificationString pk e (verifySignature_hashes ms us (Some []))
       = key pk @ number_toString e @ concat ms @ concat us"
    by (simp add: verifySignature_hashes_def verifySignature_verificationString_def join_empty_separator)
  have d: "verifySignature_verificationString pk e (verifySignature_hashes ms us None)
       = key pk @ number_toString e @ concat ms @ concat us"
    by (simp add: verifySignature_hashes_def verifySignature_verificationString_def join_empty_separator)
  from a b c d show ?thesis by blast
qed

text \<open>C2 at two orders of the same two entries.\<close>

theorem C2_unchanged_sorted_witness:
  "mset [(''hashA'', ''1700''), (''hashB'', ''1800'')] = mset [(''hashB'', ''1800''), (''hashA'', ''1700'')]
   \<and> verifySignature_verificationString \<lparr>key = ''05ab''\<rparr> 1900
        (verifySignature_hashes [''m1''] [''m1''] (Some [(''hashA'', ''1700''), (''hashB'', ''1800'')]))
    = verifySignature_verificationString \<lparr>key = ''05ab''\<rparr> 1900
        (verifySignature_hashes [''m1''] [''m1''] (Some [(''hashB'', ''1800''), (''hashA'', ''1700'')]))
   \<and> verifySignature_verificationString \<lparr>key = ''05ab''\<rparr> 1900
        (verifySignature_hashes [''m1''] [''m1''] (Some [(''hashB'', ''1800''), (''hashA'', ''1700'')]))
      = ''05ab1900m1m1hashA1700hashB1800''"
proof -
  have m: "mset [(''hashA'', ''1700''), (''hashB'', ''1800'')] = mset [(''hashB'', ''1800''), (''hashA'', ''1700'')]"
    by simp
  have v: "verifySignature_verificationString \<lparr>key = ''05ab''\<rparr> 1900
        (verifySignature_hashes [''m1''] [''m1''] (Some [(''hashB'', ''1800''), (''hashA'', ''1700'')]))
      = ''05ab1900m1m1hashA1700hashB1800''"
    by code_simp
  from m v C2_unchanged_sorted[of "[(''hashA'', ''1700''), (''hashB'', ''1800'')]"
      "[(''hashB'', ''1800''), (''hashA'', ''1700'')]" "\<lparr>key = ''05ab''\<rparr>" 1900 "[''m1'']" "[''m1'']"]
  show ?thesis by blast
qed

lemma concat_same_length_inj:
  "length xs = length ys \<Longrightarrow> \<forall>x\<in>set xs. length x = n \<Longrightarrow> \<forall>y\<in>set ys. length y = n \<Longrightarrow>
   concat xs = concat ys \<Longrightarrow> xs = ys"
  by (induction xs ys rule: list_induct2) auto

text \<open>
  C3, as stated, fails: two different orders of the hashes \<open>a\<close> and \<open>aa\<close> give the same
  signing string.
\<close>

theorem C3_counterexample:
  "mset [''a'', ''aa''] = mset [''aa'', ''a''] \<and> [''a'', ''aa''] \<noteq> [''aa'', ''a'']
   \<and> generateSignature_verificationString ''extend'' 1700000000000 [''a'', ''aa'']
     = generateSignature_verificationString ''extend'' 1700000000000 [''aa'', ''a'']"
  by (simp add: generateSignature_verificationString_def)

text \<open>
  C3, amended. Equal inputs give equal signing strings, and when all the message hashes
  have one common length, two different orders of the same hashes give different signing
  strings.
\<close>

theorem C3_order_sensitive:
  "(tok = tok' \<and> t = t' \<and> xs = xs' \<longrightarrow>
      generateSignature_verificationString tok t xs = generateSignature_verificationString tok' t' xs')
   \<and> ((\<forall>h\<in>set xs. length h = n) \<and> mset xs = mset ys \<and> xs \<noteq> ys \<longrightarrow>
      generateSignature_verificationString tok t xs \<noteq> generateSignature_verificationString tok t ys)"
proof -
  have "generateSignature_verificationString tok t xs \<noteq> generateSignature_verificationString tok t ys"
    if len: "\<forall>h\<in>set xs. length h = n" and perm: "mset xs = mset ys" and ne: "xs \<noteq> ys"
  proof
    assume "generateSignature_verificationString tok t xs = generateSignature_verificationString tok t ys"
    then have c: "concat xs = concat ys"
      by (simp add: generateSignature_verificationString_def join_empty_separator)
    from perm have "set xs = set ys" by (rule mset_eq_setD)
    with len have len': "\<forall>h\<in>set ys. length h = n" by simp
    from perm have "length xs = length ys" by (rule mset_eq_length)
    from concat_same_length_inj[OF this len len' c] ne show False by simp
  qed
  then show ?thesis by blast
qed

text \<open>C3 amended, at two hashes of length two.\<close>

theorem C3_order_sensitive_witness:
  "list_all (\<lambda>h. length h = 2) [''h1'', ''h2''] \<and> mset [''h1'', ''h2''] = mset [''h2'', ''h1'']
   \<and> [''h1'', ''h2''] \<noteq> [''h2'', ''h1'']
   \<and> generateSignature_verificationString '''' 17 [''h1'', ''h2'']
      \<noteq> generateSignature_verificationString '''' 17 [''h2'', ''h1'']
   \<and> generateSignature_verificationString '''' 17 [''h1'', ''h2''] = ''expire17h1h2''"
proof -
  have a: "\<forall>h\<in>set [''h1'', ''h2'']. length h = 2" by simp
  have a': "list_all (\<lambda>h. length h = 2) [''h1'', ''h2'']" by simp
  have b: "mset [''h1'', ''h2''] = mset [''h2'', ''h1'']" by simp
  have c: "[''h1'', ''h2''] \<noteq> [''h2'', ''h1'']" by simp
  have d: "generateSignature_verificationString '''' 17 [''h1'', ''h2''] = ''expire17h1h2''" by code_simp
  from a a' b c d C3_order_sensitive[of "''''" "''''" 17 17 "[''h1'', ''h2'']" "[''h1'', ''h2'']" 2 "[''h2'', ''h1'']"]
  show ?thesis by blast
qed

subsection \<open>Sequencing and traces\<close>

lemma fst_andThen:
  "fst (andThen m f) = (case fst m of Returned x \<Rightarrow> fst (f x) | Threw e \<Rightarrow> Threw e | Pending \<Rightarrow> Pending)"
  by (simp add: andThen_def split: outcome.splits)

lemma snd_andThen:
  "snd (andThen m f) = snd m @ (case fst m of Returned x \<Rightarrow> snd (f x) | Threw e \<Rightarrow> [] | Pending \<Rightarrow> [])"
  by (simp add: andThen_def split: outcome.splits)

lemma fst_tryCatch:
  "fst (tryCatch m h) = (case fst m of Threw e \<Rightarrow> fst (h e) | Returned x \<Rightarrow> Returned x | Pending \<Rightarrow> Pending)"
  by (simp add: tryCatch_def split: outcome.splits)

lemma snd_tryCatch:
  "snd (tryCatch m h) = snd m @ (case fst m of Threw e \<Rightarrow> snd (h e) | Returned x \<Rightarrow> [] | Pending \<Rightarrow> [])"
  by (simp add: tryCatch_def split: outcome.splits)

lemma io_simps:
  "fst (ret x) = Returned x" "snd (ret x) = []"
  "fst (throw e) = Threw e" "snd (throw e) = []"
  "fst (call evs r) = r" "snd (call evs r) = evs"
  by (simp_all add: ret_def throw_def call_def)

lemma andThen_pair:
  "andThen (Returned x, tr) f = (fst (f x), tr @ snd (f x))"
  "andThen (Threw e, tr) f = (Threw e, tr)"
  "andThen (Pending, tr) f = (Pending, tr)"
  "andThen (call evs (Returned x)) f = (fst (f x), evs @ snd (f x))"
  "andThen (call evs (Threw e)) f = (Threw e, evs)"
  "andThen (call evs Pending) f = (Pending, evs)"
  by (simp_all add: andThen_def call_def)

lemma log_call_ok:
  "m \<in> set (log_methods env) \<Longrightarrow> log_call env m msg = (Returned (), [Log m msg])"
  by (simp add: log_call_def call_def)

lemma log_call_missing:
  "m \<notin> set (log_methods env) \<Longrightarrow>
   log_call env m msg = (Threw (TypeError (''window.log.'' @ m @ '' is not a function'')), [])"
  by (simp add: log_call_def throw_def)

lemma reader_simps:
  "rpc_calls [] = []" "rpc_calls (a @ b) = rpc_calls a @ rpc_calls b"
  "rpc_calls (RpcCall n p # tr) = (n, p) # rpc_calls tr"
  "rpc_calls (Log l msg # tr) = rpc_calls tr"
  "rpc_calls (SwarmLookup k # tr) = rpc_calls tr"
  "rpc_calls (ClockRead # tr) = rpc_calls tr"
  "rpc_calls (SignCall m' k' # tr) = rpc_calls tr"
  "rpc_calls (VerifyCall s m' k' # tr) = rpc_calls tr"
  "clock_reads [] = 0" "clock_reads (a @ b) = clock_reads a + clock_reads b"
  "clock_reads (ClockRead # tr) = Suc (clock_reads tr)"
  "clock_reads (RpcCall n p # tr) = clock_reads tr"
  "clock_reads (Log l msg # tr) = clock_reads tr"
  "clock_reads (SwarmLookup k # tr) = clock_reads tr"
  "clock_reads (SignCall m' k' # tr) = clock_reads tr"
  "clock_reads (VerifyCall s m' k' # tr) = clock_reads tr"
  "signed_messages (RpcCall n p # tr) = signed_messages tr"
  "signed_messages (SwarmLookup k # tr) = signed_messages tr"
  "signed_messages (ClockRead # tr) = signed_messages tr"
  "signed_messages (VerifyCall s m' k' # tr) = signed_messages tr"
  "sign_results env [] = []" "sign_results env (a @ b) = sign_results env a @ sign_results env b"
  "sign_results env (SignCall m' k' # tr) = crypto_sign_detached env m' k' # sign_results env tr"
  "sign_results env (RpcCall n p # tr) = sign_results env tr"
  "sign_results env (Log l msg # tr) = sign_results env tr"
  "sign_results env (SwarmLookup k # tr) = sign_results env tr"
  "sign_results env (ClockRead # tr) = sign_results env tr"
  "sign_results env (VerifyCall s m' k' # tr) = sign_results env tr"
  by (simp_all add: rpc_calls_def clock_reads_def signed_messages_def sign_results_def)


lemma quiet_simps:
  "quiet []"
  "quiet (a @ b) = (quiet a \<and> quiet b)"
  "quiet (Log l msg # tr) = quiet tr"
  "quiet (SwarmLookup k # tr) = quiet tr"
  "quiet (VerifyCall s m' k' # tr) = quiet tr"
  "\<not> quiet (RpcCall n p # tr)"
  "\<not> quiet (ClockRead # tr)"
  "\<not> quiet (SignCall m' k' # tr)"
  by (auto simp: quiet_def rpc_calls_def clock_reads_def signed_messages_def)

lemma quiet_readers:
  "quiet tr \<Longrightarrow> rpc_calls tr = [] \<and> clock_reads tr = 0 \<and> signed_messages tr = []
     \<and> sign_results env tr = []"
  unfolding quiet_def rpc_calls_def clock_reads_def signed_messages_def sign_results_def
  by (induction tr) (auto split: event.splits)

lemma quiet_log_call: "quiet (snd (log_call env m msg))"
  by (simp add: log_call_def call_def throw_def quiet_simps)

lemma quiet_andThen:
  "quiet (snd m) \<Longrightarrow> (\<And>x. quiet (snd (f x))) \<Longrightarrow> quiet (snd (andThen m f))"
  by (simp add: snd_andThen quiet_simps split: outcome.splits)

lemma quiet_tryCatch:
  "quiet (snd m) \<Longrightarrow> (\<And>e. quiet (snd (h e))) \<Longrightarrow> quiet (snd (tryCatch m h))"
  by (simp add: snd_tryCatch quiet_simps split: outcome.splits)

lemmas quiet_intros = quiet_andThen quiet_tryCatch quiet_log_call

lemma quiet_both_branch:
  "quiet (snd (andThen (log_call env m msg) ret))"
  by (auto intro!: quiet_intros simp: io_simps quiet_simps)

subsection \<open>Signing and verification\<close>

lemma generateSignature_no_rpc:
  "rpc_calls (snd (generateSignature env keypair tok timestamp messageHashes)) = []
   \<and> clock_reads (snd (generateSignature env keypair tok timestamp messageHashes)) = 0"
  by (auto simp: generateSignature_def snd_andThen snd_tryCatch fst_andThen io_simps log_call_def
        reader_simps Let_def
      split: option.splits outcome.splits)

lemma generateSignature_Some:
  assumes "fst (generateSignature env keypair tok timestamp messageHashes) = Returned (Some sr)"
  shows "\<exists>kp k s. keypair = Some kp \<and> fromHexToArray env (privKey kp) = Returned k
     \<and> crypto_sign_detached env
          (encode_utf8 env (generateSignature_verificationString tok timestamp messageHashes)) k
         = Returned s
     \<and> sr = (fromUInt8ArrayToBase64 env s, pubKey kp)
     \<and> snd (generateSignature env keypair tok timestamp messageHashes)
         = [Log ''debug'' ''generateSignature verificationString'',
            SignCall (encode_utf8 env (generateSignature_verificationString tok timestamp messageHashes)) k]"
  using assms
  by (auto simp: generateSignature_def snd_andThen snd_tryCatch fst_andThen fst_tryCatch io_simps
        log_call_def Let_def
      split: option.splits outcome.splits if_splits)


lemma verifySignature_outcome:
  assumes "''warn'' \<in> set (log_methods env)" and "''debug'' \<in> set (log_methods env)"
    and "getSodiumRenderer env = Returned ()"
    and "fromHexToArray env snodePubkey = Returned keyBytes"
    and "expiryApplied \<noteq> 0" and "messageHashes \<noteq> []" and "sig \<noteq> []"
  shows "fst (verifySignature env pubkey snodePubkey (Some expiryApplied) (Some sig) messageHashes
            (Some updatedHashes) unchangedHashes)
     = (case fromBase64ToArray env sig of
          Returned sigBytes \<Rightarrow>
            (case crypto_sign_verify_detached env sigBytes
                    (encode_utf8 env (verifySignature_verificationString pubkey expiryApplied
                       (verifySignature_hashes messageHashes updatedHashes unchangedHashes)))
                    keyBytes of
               Returned isValid \<Rightarrow> Returned isValid
             | Threw e \<Rightarrow> Returned False
             | Pending \<Rightarrow> Pending)
        | Threw e \<Rightarrow> Returned False
        | Pending \<Rightarrow> Pending)"
  using assms
  by (simp add: verifySignature_def Let_def fst_andThen fst_tryCatch io_simps log_call_ok
           split: outcome.splits)



subsection \<open>Processing a response\<close>













subsection \<open>The paths of \<open>expireMessageOnSnode\<close>\<close>

lemma expireMessageOnSnode_both:
  assumes "props_extend props = Some True" and "props_shorten props = Some True"
  shows "expireMessageOnSnode env props
     = andThen (log_call env ''error''
                      ''[expireMessageOnSnode] We cannot extend and shorten a message at the same time'')
             (\<lambda>_. ret ())"
  using assms by (simp add: expireMessageOnSnode_def)

lemma expireMessageOnSnode_no_key:
  assumes "\<not> (props_extend props = Some True \<and> props_shorten props = Some True)"
    and "getOurPubKeyFromCache env = Returned ourPubKey"
    and "getUserED25519KeyPair env = Returned ourEd25519Key"
    and "ourPubKey = None \<or> ourEd25519Key = None"
  shows "expireMessageOnSnode env props
     = andThen (log_call env ''eror'' ''[expireMessageOnSnode] No pubkey found'') (\<lambda>_. ret ())"
  using assms
  by (auto simp: expireMessageOnSnode_def if_not_P[OF assms(1)] Let_def andThen_pair)

lemma expireMessageOnSnode_signed:
  assumes nb: "\<not> (props_extend props = Some True \<and> props_shorten props = Some True)"
    and pk: "getOurPubKeyFromCache env = Returned (Some pk)"
    and kp: "getUserED25519KeyPair env = Returned (Some kp)"
    and sw: "getSwarmFor env (key pk) = Returned swarm"
    and gen: "generateSignature env (Some kp)
               (shortenOrExtend (props_shorten props = Some True) (props_extend props = Some True))
               (getNowWithNetworkOffset env + expireTimer props) [messageHash props] = (Returned signResult, gtr)"
    and rest: "rest =
           (if signResult = None
            then andThen (log_call env ''error''
                          ''[expireMessageOnSnode] Signing message expiry on swarm failed'')
                 (\<lambda>_. ret ())
            else if take (DEFAULT_CONNECTIONS env) swarm = []
            then throw (EmptySwarmError (key pk) ''Ran out of swarm nodes to query'')
            else expireMessageOnSnode_race env
                   (expireMessageOnSnode_promises env
                      (expireMessageOnSnode_params pk kp props
                         (getNowWithNetworkOffset env + expireTimer props) (fst (the signResult)))
                      (take (DEFAULT_CONNECTIONS env) swarm)))"
  shows "expireMessageOnSnode env props = (fst rest, [SwarmLookup (key pk), ClockRead] @ gtr @ snd rest)"
  using nb pk kp sw gen unfolding rest
  by (simp add: expireMessageOnSnode_def if_not_P[OF nb] Let_def andThen_pair)

lemma expireMessageOnSnode_pk_fails:
  assumes "\<not> (props_extend props = Some True \<and> props_shorten props = Some True)"
    and "\<forall>x. getOurPubKeyFromCache env \<noteq> Returned x"
  shows "snd (expireMessageOnSnode env props) = []"
  using assms
  by (cases "getOurPubKeyFromCache env") (simp_all add: expireMessageOnSnode_def if_not_P[OF assms(1)] Let_def andThen_pair)

lemma expireMessageOnSnode_kp_fails:
  assumes "\<not> (props_extend props = Some True \<and> props_shorten props = Some True)"
    and "getOurPubKeyFromCache env = Returned ourPubKey"
    and "\<forall>x. getUserED25519KeyPair env \<noteq> Returned x"
  shows "snd (expireMessageOnSnode env props) = []"
  using assms
  by (cases "getUserED25519KeyPair env") (simp_all add: expireMessageOnSnode_def if_not_P[OF assms(1)] Let_def andThen_pair)

lemma expireMessageOnSnode_sw_fails:
  assumes "\<not> (props_extend props = Some True \<and> props_shorten props = Some True)"
    and "getOurPubKeyFromCache env = Returned (Some pk)"
    and "getUserED25519KeyPair env = Returned (Some kp)"
    and "\<forall>x. getSwarmFor env (key pk) \<noteq> Returned x"
  shows "snd (expireMessageOnSnode env props) = [SwarmLookup (key pk)]"
  using assms
  by (cases "getSwarmFor env (key pk)") (simp_all add: expireMessageOnSnode_def if_not_P[OF assms(1)] Let_def andThen_pair)

lemma expireMessageOnSnode_gen_fails:
  assumes "\<not> (props_extend props = Some True \<and> props_shorten props = Some True)"
    and "getOurPubKeyFromCache env = Returned (Some pk)"
    and "getUserED25519KeyPair env = Returned (Some kp)"
    and "getSwarmFor env (key pk) = Returned swarm"
    and "generateSignature env (Some kp)
               (shortenOrExtend (props_shorten props = Some True) (props_extend props = Some True))
               (getNowWithNetworkOffset env + expireTimer props) [messageHash props] = (r, gtr)"
    and "\<forall>x. r \<noteq> Returned x"
  shows "snd (expireMessageOnSnode env props) = [SwarmLookup (key pk), ClockRead] @ gtr"
  using assms
  by (cases r) (simp_all add: expireMessageOnSnode_def if_not_P[OF assms(1)] Let_def andThen_pair)

lemma snd_promises:
  "concat (map snd (expireMessageOnSnode_promises env params usedNodes))
     = concat (map (\<lambda>n. snd (expireOnNodes env n params)) usedNodes)"
  by (induction usedNodes)
     (simp_all add: expireMessageOnSnode_promises_def snd_andThen io_simps split: outcome.splits)

lemma race_trace:
  "\<exists>tail. snd (expireMessageOnSnode_race env promises) = concat (map snd promises) @ tail \<and> quiet tail"
  by (cases "firstTrue env (map fst promises)")
     (simp_all add: expireMessageOnSnode_race_def snd_tryCatch snd_andThen fst_andThen io_simps
        quiet_simps quiet_log_call split: outcome.splits)

lemma expireMessageOnSnode_trace:
  fixes env props
  defines "tr \<equiv> snd (expireMessageOnSnode env props)"
  shows "(rpc_calls tr = [] \<and> clock_reads tr \<le> 1 \<and> length (signed_messages tr) \<le> 1)
   \<or> (\<exists>pk kp swarm s m k tail.
        getOurPubKeyFromCache env = Returned (Some pk)
        \<and> getUserED25519KeyPair env = Returned (Some kp)
        \<and> getSwarmFor env (key pk) = Returned swarm
        \<and> take (DEFAULT_CONNECTIONS env) swarm \<noteq> []
        \<and> crypto_sign_detached env m k = Returned s
        \<and> tr = [SwarmLookup (key pk), ClockRead,
                 Log ''debug'' ''generateSignature verificationString'', SignCall m k]
               @ concat (map (\<lambda>n. snd (expireOnNodes env n
                                  (expireMessageOnSnode_params pk kp props
                                     (getNowWithNetworkOffset env + expireTimer props)
                                     (fromUInt8ArrayToBase64 env s))))
                          (take (DEFAULT_CONNECTIONS env) swarm))
               @ tail
        \<and> quiet tail)"
proof (cases "props_extend props = Some True \<and> props_shorten props = Some True")
  case True
  then have "quiet tr"
    unfolding tr_def by (simp add: expireMessageOnSnode_both quiet_both_branch)
  then show ?thesis using quiet_readers[of tr] by simp
next
  case nb: False
  show ?thesis
  proof (cases "\<exists>x. getOurPubKeyFromCache env = Returned x")
    case False
    then have "tr = []" unfolding tr_def using expireMessageOnSnode_pk_fails[OF nb] by simp
    then show ?thesis by (simp add: reader_simps signed_messages_simps)
  next
    case True
    then obtain opk where opk: "getOurPubKeyFromCache env = Returned opk" by blast
    show ?thesis
    proof (cases "\<exists>x. getUserED25519KeyPair env = Returned x")
      case False
      then have "tr = []" unfolding tr_def using expireMessageOnSnode_kp_fails[OF nb opk] by simp
      then show ?thesis by (simp add: reader_simps signed_messages_simps)
    next
      case True
      then obtain okp where okp: "getUserED25519KeyPair env = Returned okp" by blast
      show ?thesis
      proof (cases "opk = None \<or> okp = None")
        case True
        then have "quiet tr"
          unfolding tr_def by (simp add: expireMessageOnSnode_no_key[OF nb opk okp] quiet_both_branch)
        then show ?thesis using quiet_readers[of tr] by simp
      next
        case False
        then obtain pk kp where pk: "getOurPubKeyFromCache env = Returned (Some pk)"
          and kp: "getUserED25519KeyPair env = Returned (Some kp)"
          using opk okp by auto
        show ?thesis
        proof (cases "\<exists>x. getSwarmFor env (key pk) = Returned x")
          case False
          then have "tr = [SwarmLookup (key pk)]"
            unfolding tr_def using expireMessageOnSnode_sw_fails[OF nb pk kp] by simp
          then show ?thesis by (simp add: reader_simps signed_messages_simps)
        next
          case True
          then obtain swarm where sw: "getSwarmFor env (key pk) = Returned swarm" by blast
          let ?tok = "shortenOrExtend (props_shorten props = Some True) (props_extend props = Some True)"
          let ?expiry = "getNowWithNetworkOffset env + expireTimer props"
          let ?gen = "generateSignature env (Some kp) ?tok ?expiry [messageHash props]"
          obtain r gtr where gen: "?gen = (r, gtr)" by (cases ?gen)
          have gq: "rpc_calls gtr = []" "clock_reads gtr = 0" "length (signed_messages gtr) \<le> 1"
            using generateSignature_no_rpc[of env "Some kp" ?tok ?expiry "[messageHash props]"]
              generateSignature_signed[of env "Some kp" ?tok ?expiry "[messageHash props]"] gen
            by auto
          show ?thesis
          proof (cases "\<exists>x. r = Returned x")
            case False
            then have "tr = [SwarmLookup (key pk), ClockRead] @ gtr"
              unfolding tr_def using expireMessageOnSnode_gen_fails[OF nb pk kp sw gen] by simp
            then show ?thesis using gq by (simp add: reader_simps signed_messages_simps)
          next
            case True
            then obtain signResult where r: "r = Returned signResult" by blast
            note path = expireMessageOnSnode_signed[OF nb pk kp sw gen[unfolded r] refl]
            show ?thesis
            proof (cases signResult)
              case None
              have "tr = [SwarmLookup (key pk), ClockRead] @ gtr @
                  snd (andThen (log_call env ''error''
                          ''[expireMessageOnSnode] Signing message expiry on swarm failed'') (\<lambda>_. ret ()))"
                unfolding tr_def path by (simp add: None)
              then show ?thesis
                using gq quiet_readers[OF quiet_both_branch]
                by (simp add: reader_simps signed_messages_simps)
            next
              case (Some sr)
              from generateSignature_Some[of env "Some kp" ?tok ?expiry "[messageHash props]" sr] gen r Some
              obtain k s where s: "crypto_sign_detached env
                    (encode_utf8 env (generateSignature_verificationString ?tok ?expiry [messageHash props])) k
                      = Returned s"
                and sr: "sr = (fromUInt8ArrayToBase64 env s, pubKey kp)"
                and gtr: "gtr = [Log ''debug'' ''generateSignature verificationString'',
                     SignCall (encode_utf8 env (generateSignature_verificationString ?tok ?expiry [messageHash props])) k]"
                by auto
              show ?thesis
              proof (cases "take (DEFAULT_CONNECTIONS env) swarm = []")
                case True
                have "tr = [SwarmLookup (key pk), ClockRead] @ gtr"
                  unfolding tr_def path by (simp add: Some True io_simps)
                then show ?thesis using gq by (simp add: reader_simps signed_messages_simps)
              next
                case False
                let ?params = "expireMessageOnSnode_params pk kp props ?expiry (fromUInt8ArrayToBase64 env s)"
                let ?used = "take (DEFAULT_CONNECTIONS env) swarm"
                obtain tail where tail: "snd (expireMessageOnSnode_race env
                      (expireMessageOnSnode_promises env ?params ?used))
                    = concat (map snd (expireMessageOnSnode_promises env ?params ?used)) @ tail"
                  and qt: "quiet tail"
                  using race_trace by blast
                have "tr = [SwarmLookup (key pk), ClockRead] @ gtr
                        @ concat (map (\<lambda>n. snd (expireOnNodes env n ?params)) ?used) @ tail"
                  unfolding tr_def path using False tail
                  by (simp add: Some sr snd_promises)
                with pk kp sw False s gtr qt show ?thesis by auto
              qed
            qed
          qed
        qed
      qed
    qed
  qed
qed


subsection \<open>Concrete runs\<close>

lemmas run_defs =
  expireMessageOnSnode_def expireMessageOnSnode_race_def expireMessageOnSnode_promises_def
  expireMessageOnSnode_params_def expireOnNodes_def rpcParams_of_def
  processExpirationResults_def processExpirationResults_body_def
  verifySignature_def generateSignature_def log_call_def
  andThen_def tryCatch_def call_def ret_def throw_def Let_def
  demo_env_def demo_props_def demo_nodes_def demo_entry_def demo_params_def shortenOrExtend_def

lemma demo_no_key:
  "expireMessageOnSnode (demo_env\<lparr>getOurPubKeyFromCache := Returned None\<rparr>) demo_props
     = (Threw (TypeError ''window.log.eror is not a function''), [])"
  by (simp add: run_defs)

lemma demo_both:
  "expireMessageOnSnode demo_env
      \<lparr>messageHash = ''h1'', expireTimer = 60, props_extend = Some True, props_shorten = Some True\<rparr>
     = (Returned (), [Log ''error'' ''[expireMessageOnSnode] We cannot extend and shorten a message at the same time''])"
  by (simp add: run_defs)

lemma demo_empty_swarm_unsigned:
  "fst (expireMessageOnSnode
      (demo_env\<lparr>getSwarmFor := (\<lambda>k. Returned []),
                crypto_sign_detached := (\<lambda>m k. Threw (External ''bad secret key length''))\<rparr>)
      demo_props) = Returned ()"
  by (simp add: run_defs)

lemma demo_verify_malformed:
  "fst (verifySignature
     (demo_env\<lparr>crypto_sign_verify_detached := (\<lambda>s m k. Threw (External ''invalid signature length''))\<rparr>)
     \<lparr>key = ''05ab''\<rparr> ''aa01'' (Some 1060) (Some ''c2ln'') [''h1''] (Some [''h1'']) None) = Returned False"
  by (simp add: run_defs)

lemma demo_verify_invalid:
  "fst (verifySignature demo_env
     \<lparr>key = ''05ab''\<rparr> ''aa01'' (Some 1060) (Some ''c2ln'') [''h1''] (Some [''h1'']) None) = Returned False"
  by (simp add: run_defs)

lemma demo_expireOnNodes: "fst (expireOnNodes demo_env (hd demo_nodes) demo_params) = Returned True"
  by (simp add: run_defs)

subsection \<open>Invalid signatures and failed entries\<close>



text \<open>
  C5 fails on the code. For an entry whose \<open>failed\<close> field is the non-empty string
  \<open>timeout\<close>, the value first stored (no hashes, expiry 0) is overwritten at the end of
  the iteration by the entry's own \<open>updated\<close> and \<open>expiry\<close> fields, absent or present,
  and the signature of the entry is still verified.
\<close>

theorem C5_failed_entry_overwritten:
  "fst (processExpirationResults demo_env \<lparr>key = ''05ab''\<rparr> (hd demo_nodes)
          (Some [(''aa01'', \<lparr>entry_failed = JStr ''timeout'', entry_updated = None,
                            entry_unchanged = None, entry_expiry = None,
                            entry_signature = None\<rparr>)]) [''h1''])
     = Returned [(''aa01'', \<lparr>result_hashes = None, result_expiry = None\<rparr>)]
   \<and> processExpirationResults demo_env \<lparr>key = ''05ab''\<rparr> (hd demo_nodes)
          (Some [(''aa01'', \<lparr>entry_failed = JStr ''timeout'', entry_updated = Some [''h1''],
                            entry_unchanged = None, entry_expiry = Some 1060,
                            entry_signature = Some ''c2ln''\<rparr>)]) [''h1'']
     = (Returned [(''aa01'', \<lparr>result_hashes = Some [''h1''], result_expiry = Some 1060\<rparr>)],
        [Log ''warn'' ''loki_message:::expireMessage - Couldn't delete data from: '',
         Log ''debug'' ''verifySignature verificationString'',
         VerifyCall (map of_char ''c2ln'')
           (map of_char (verifySignature_verificationString \<lparr>key = ''05ab''\<rparr> 1060 [''h1'', ''h1'']))
           (map of_char ''aa01''),
         Log ''warn'' ''loki_message:::expireMessage - Signature verification failed!''])"
  by (simp add: processExpirationResults_def processExpirationResults_body_def verifySignature_def
        fst_andThen snd_andThen fst_tryCatch snd_tryCatch io_simps log_call_ok demo_env_def demo_nodes_def Let_def
        verifySignature_hashes_def prod_eq_iff)

subsection \<open>Validation, empty swarms and missing keys\<close>

text \<open>
  C6, as stated, fails: with both flags selected the function returns; it does not throw a
  validation error.
\<close>

theorem C6_counterexample:
  "fst (expireMessageOnSnode demo_env
      \<lparr>messageHash = ''h1'', expireTimer = 60, props_extend = Some True, props_shorten = Some True\<rparr>)
     = Returned ()"
  by (simp add: demo_both)

text \<open>
  C6, amended. When both \<open>extend\<close> and \<open>shorten\<close> are selected, no transport call is made,
  and with a logger that has \<open>error\<close> the function logs one error and returns normally,
  before any other external call.
\<close>

theorem C6_extend_and_shorten:
  "props_extend props = Some True \<and> props_shorten props = Some True \<longrightarrow>
     rpc_calls (snd (expireMessageOnSnode env props)) = []
     \<and> (''error'' \<in> set (log_methods env) \<longrightarrow>
          expireMessageOnSnode env props
            = (Returned (),
               [Log ''error''
                  ''[expireMessageOnSnode] We cannot extend and shorten a message at the same time'']))"
proof
  assume both: "props_extend props = Some True \<and> props_shorten props = Some True"
  then have eq: "expireMessageOnSnode env props
     = andThen (log_call env ''error''
                      ''[expireMessageOnSnode] We cannot extend and shorten a message at the same time'')
             (\<lambda>_. ret ())"
    by (simp add: expireMessageOnSnode_both)
  have "quiet (snd (expireMessageOnSnode env props))"
    unfolding eq by (simp add: quiet_both_branch)
  then have a: "rpc_calls (snd (expireMessageOnSnode env props)) = []"
    using quiet_readers by blast
  have b: "''error'' \<in> set (log_methods env) \<longrightarrow>
          expireMessageOnSnode env props
            = (Returned (),
               [Log ''error''
                  ''[expireMessageOnSnode] We cannot extend and shorten a message at the same time''])"
    unfolding eq by (simp add: log_call_ok andThen_pair io_simps)
  from a b show "rpc_calls (snd (expireMessageOnSnode env props)) = []
     \<and> (''error'' \<in> set (log_methods env) \<longrightarrow>
          expireMessageOnSnode env props
            = (Returned (),
               [Log ''error''
                  ''[expireMessageOnSnode] We cannot extend and shorten a message at the same time'']))"
    by blast
qed

text \<open>C6 amended, at a request with both flags.\<close>

theorem C6_extend_and_shorten_witness:
  "expireMessageOnSnode demo_env
      \<lparr>messageHash = ''h2'', expireTimer = 30, props_extend = Some True, props_shorten = Some True\<rparr>
     = (Returned (),
        [Log ''error''
           ''[expireMessageOnSnode] We cannot extend and shorten a message at the same time''])
   \<and> rpc_calls (snd (expireMessageOnSnode demo_env
      \<lparr>messageHash = ''h2'', expireTimer = 30, props_extend = Some True, props_shorten = Some True\<rparr>)) = []"
proof -
  have l: "''error'' \<in> set (log_methods demo_env)" by (simp add: demo_env_def)
  show ?thesis
    using l C6_extend_and_shorten[of
      "\<lparr>messageHash = ''h2'', expireTimer = 30, props_extend = Some True, props_shorten = Some True\<rparr>"
      demo_env]
    by (simp add: reader_simps)
qed

text \<open>
  C7, as stated, fails: with an empty swarm and a signing primitive that throws, the
  function returns normally instead of failing with the empty-swarm error.
\<close>

theorem C7_counterexample:
  "fst (expireMessageOnSnode
      (demo_env\<lparr>getSwarmFor := (\<lambda>k. Returned []),
                crypto_sign_detached := (\<lambda>m k. Threw (External ''bad secret key length''))\<rparr>)
      demo_props) = Returned ()"
  by (rule demo_empty_swarm_unsigned)

text \<open>
  C7, amended. When the swarm lookup returns no node, no transport call is made; if the
  request was signed the function throws \<open>EmptySwarmError\<close>, and if signing failed
  it logs an error and returns normally.
\<close>

theorem C7_empty_swarm:
  assumes nb: "\<not> (props_extend props = Some True \<and> props_shorten props = Some True)"
    and pk: "getOurPubKeyFromCache env = Returned (Some pk)"
    and kp: "getUserED25519KeyPair env = Returned (Some kp)"
    and sw: "getSwarmFor env (key pk) = Returned []"
  shows "rpc_calls (snd (expireMessageOnSnode env props)) = []
     \<and> (\<forall>sr. fst (generateSignature env (Some kp)
                 (shortenOrExtend (props_shorten props = Some True) (props_extend props = Some True))
                 (getNowWithNetworkOffset env + expireTimer props) [messageHash props])
               = Returned (Some sr) \<longrightarrow>
           fst (expireMessageOnSnode env props)
             = Threw (EmptySwarmError (key pk) ''Ran out of swarm nodes to query''))
     \<and> (fst (generateSignature env (Some kp)
                 (shortenOrExtend (props_shorten props = Some True) (props_extend props = Some True))
                 (getNowWithNetworkOffset env + expireTimer props) [messageHash props])
               = Returned None \<and> ''error'' \<in> set (log_methods env) \<longrightarrow>
           fst (expireMessageOnSnode env props) = Returned ())"
proof -
  let ?gen = "generateSignature env (Some kp)
                 (shortenOrExtend (props_shorten props = Some True) (props_extend props = Some True))
                 (getNowWithNetworkOffset env + expireTimer props) [messageHash props]"
  have a: "rpc_calls (snd (expireMessageOnSnode env props)) = []"
    using expireMessageOnSnode_trace[of env props] pk sw by auto
  have b: "fst (expireMessageOnSnode env props)
             = Threw (EmptySwarmError (key pk) ''Ran out of swarm nodes to query'')"
    if "fst ?gen = Returned (Some sr)" for sr
  proof -
    from that have g: "?gen = (Returned (Some sr), snd ?gen)" by (metis prod.collapse)
    show ?thesis
      by (simp add: expireMessageOnSnode_signed[OF nb pk kp sw g refl] io_simps)
  qed
  have c: "fst (expireMessageOnSnode env props) = Returned ()"
    if "fst ?gen = Returned None" and "''error'' \<in> set (log_methods env)"
  proof -
    from that have g: "?gen = (Returned None, snd ?gen)" by (metis prod.collapse)
    show ?thesis
      using that(2)
      by (simp add: expireMessageOnSnode_signed[OF nb pk kp sw g refl] io_simps log_call_ok
            andThen_pair)
  qed
  from a b c show ?thesis by blast
qed

text \<open>
  C7 amended, at an empty swarm: with a working signing primitive, and with one that
  throws.
\<close>

theorem C7_empty_swarm_witness:
  "fst (expireMessageOnSnode (demo_env\<lparr>getSwarmFor := (\<lambda>k. Returned [])\<rparr>) demo_props)
     = Threw (EmptySwarmError ''05ab'' ''Ran out of swarm nodes to query'')
   \<and> rpc_calls (snd (expireMessageOnSnode (demo_env\<lparr>getSwarmFor := (\<lambda>k. Returned [])\<rparr>) demo_props)) = []
   \<and> fst (expireMessageOnSnode
           (demo_env\<lparr>getSwarmFor := (\<lambda>k. Returned []),
                     crypto_sign_detached := (\<lambda>m k. Threw (External ''bad seed''))\<rparr>) demo_props)
       = Returned ()"
proof -
  let ?env = "demo_env\<lparr>getSwarmFor := (\<lambda>k. Returned [])\<rparr>"
  let ?env' = "demo_env\<lparr>getSwarmFor := (\<lambda>k. Returned []),
                     crypto_sign_detached := (\<lambda>m k. Threw (External ''bad seed''))\<rparr>"
  let ?kp = "\<lparr>pubKey = ''ab12'', privKey = ''cd34''\<rparr>"
  have nb: "\<not> (props_extend demo_props = Some True \<and> props_shorten demo_props = Some True)"
    by (simp add: demo_props_def)
  have pk: "getOurPubKeyFromCache ?env = Returned (Some \<lparr>key = ''05ab''\<rparr>)"
    and pk': "getOurPubKeyFromCache ?env' = Returned (Some \<lparr>key = ''05ab''\<rparr>)"
    by (simp_all add: demo_env_def)
  have kp: "getUserED25519KeyPair ?env = Returned (Some ?kp)"
    and kp': "getUserED25519KeyPair ?env' = Returned (Some ?kp)"
    by (simp_all add: demo_env_def)
  have sw: "getSwarmFor ?env (key \<lparr>key = ''05ab''\<rparr>) = Returned []"
    and sw': "getSwarmFor ?env' (key \<lparr>key = ''05ab''\<rparr>) = Returned []"
    by simp_all
  have gen: "\<exists>sr. fst (generateSignature ?env (Some ?kp)
                 (shortenOrExtend (props_shorten demo_props = Some True) (props_extend demo_props = Some True))
                 (getNowWithNetworkOffset ?env + expireTimer demo_props) [messageHash demo_props])
               = Returned (Some sr)"
    by (simp add: generateSignature_def log_call_def andThen_def tryCatch_def call_def ret_def
        throw_def Let_def demo_env_def)
  have gen': "fst (generateSignature ?env' (Some ?kp)
                 (shortenOrExtend (props_shorten demo_props = Some True) (props_extend demo_props = Some True))
                 (getNowWithNetworkOffset ?env' + expireTimer demo_props) [messageHash demo_props])
               = Returned None"
    by (simp add: generateSignature_def log_call_def andThen_def tryCatch_def call_def ret_def
        throw_def Let_def demo_env_def)
  have l': "''error'' \<in> set (log_methods ?env')" by (simp add: demo_env_def)
  from C7_empty_swarm[OF nb pk kp sw] gen
  have a: "fst (expireMessageOnSnode ?env demo_props)
     = Threw (EmptySwarmError ''05ab'' ''Ran out of swarm nodes to query'')
   \<and> rpc_calls (snd (expireMessageOnSnode ?env demo_props)) = []" by auto
  from C7_empty_swarm[OF nb pk' kp' sw'] gen' l'
  have b: "fst (expireMessageOnSnode ?env' demo_props) = Returned ()" by blast
  from a b show ?thesis by blast
qed

text \<open>
  C8, as stated, fails: a primitive that rejects its input as malformed gives \<open>false\<close>,
  the same result as a signature that does not verify, and no error.
\<close>

theorem C8_counterexample:
  "fst (verifySignature
     (demo_env\<lparr>crypto_sign_verify_detached := (\<lambda>s m k. Threw (External ''invalid signature length''))\<rparr>)
     \<lparr>key = ''05ab''\<rparr> ''aa01'' (Some 1060) (Some ''c2ln'') [''h1''] (Some [''h1'']) None) = Returned False
   \<and> fst (verifySignature demo_env
     \<lparr>key = ''05ab''\<rparr> ''aa01'' (Some 1060) (Some ''c2ln'') [''h1''] (Some [''h1'']) None) = Returned False"
  by (simp add: demo_verify_malformed demo_verify_invalid)

text \<open>
  C8, amended. Once the arguments are present and the node key decodes, \<open>verifySignature\<close>
  never throws: it returns the verdict of the primitive, and returns \<open>false\<close> as well
  when decoding the signature or the primitive itself throws, so a malformed signature reads
  like an invalid one.
\<close>

theorem C8_malformed_reads_as_invalid:
  assumes "''warn'' \<in> set (log_methods env)" and "''debug'' \<in> set (log_methods env)"
    and "getSodiumRenderer env = Returned ()"
    and "fromHexToArray env snodePubkey = Returned keyBytes"
    and "expiryApplied \<noteq> 0" and "messageHashes \<noteq> []" and "sig \<noteq> []"
  shows "fst (verifySignature env pubkey snodePubkey (Some expiryApplied) (Some sig) messageHashes
            (Some updatedHashes) unchangedHashes)
     = (case fromBase64ToArray env sig of
          Returned sigBytes \<Rightarrow>
            (case crypto_sign_verify_detached env sigBytes
                    (encode_utf8 env (verifySignature_verificationString pubkey expiryApplied
                       (verifySignature_hashes messageHashes updatedHashes unchangedHashes)))
                    keyBytes of
               Returned isValid \<Rightarrow> Returned isValid
             | Threw e \<Rightarrow> Returned False
             | Pending \<Rightarrow> Pending)
        | Threw e \<Rightarrow> Returned False
        | Pending \<Rightarrow> Pending)"
  using assms by (rule verifySignature_outcome)

text \<open>C8 amended, at a signature that does not decode.\<close>

theorem C8_malformed_reads_as_invalid_witness:
  "fst (verifySignature
     (demo_env\<lparr>fromBase64ToArray := (\<lambda>s. Threw (External ''invalid base64''))\<rparr>)
     \<lparr>key = ''05ab''\<rparr> ''aa01'' (Some 1060) (Some ''c2ln'') [''h1''] (Some [''h1'']) None) = Returned False"
proof -
  let ?env = "demo_env\<lparr>fromBase64ToArray := (\<lambda>s. Threw (External ''invalid base64''))\<rparr>"
  have l: "''warn'' \<in> set (log_methods ?env)" "''debug'' \<in> set (log_methods ?env)"
    by (simp_all add: demo_env_def)
  have s: "getSodiumRenderer ?env = Returned ()" by (simp add: demo_env_def)
  have h: "fromHexToArray ?env ''aa01'' = Returned (map of_char ''aa01'')" by (simp add: demo_env_def)
  show ?thesis
    using C8_malformed_reads_as_invalid[OF l s h, of 1060 "[''h1'']" "''c2ln''"
            "\<lparr>key = ''05ab''\<rparr>" "[''h1'']" None]
    by simp
qed



text \<open>
  C10 fails on the code. With a logger that has no method \<open>eror\<close>, a missing public key
  or a missing key pair makes the function throw a \<open>TypeError\<close> from the call
  \<open>window.log.eror\<close>, instead of returning.
\<close>

theorem C10_missing_key_throws:
  "expireMessageOnSnode (demo_env\<lparr>getOurPubKeyFromCache := Returned None\<rparr>) demo_props
     = (Threw (TypeError ''window.log.eror is not a function''), [])
   \<and> expireMessageOnSnode (demo_env\<lparr>getUserED25519KeyPair := Returned None\<rparr>) demo_props
     = (Threw (TypeError ''window.log.eror is not a function''), [])"
  by (simp add: run_defs)

end
